theory Spec2Isabelle
  imports Main
begin

section \<open>Strings and JavaScript values\<close>

text \<open>
  A JavaScript string is modelled as a \<open>string\<close> holding the bytes of its UTF-8
  encoding, as the literals stand in the source file \<^verbatim>\<open>BookingCalendar.tsx\<close>.
  A string is empty in JavaScript exactly when its encoding is the empty list, so the
  truthiness tests of the component (\<^verbatim>\<open>!selectedCabin\<close>, \<^verbatim>\<open>error && ...\<close>)
  are tests for the empty list.
\<close>

definition truthy :: "string \<Rightarrow> bool" where
  "truthy s = (length s \<noteq> 0)"

text \<open>The three message literals of the component, byte for byte.\<close>

definition load_failed_message :: string where
  "load_failed_message = ''Failed to load available time slots''"

definition validation_message :: string where
  "validation_message =
     ''Pra'' @ [CHR 0xC5, CHR 0xA1] @ ''ome u'' @ [CHR 0xC5, CHR 0xBE] @ ''pildyti visus laukus''"

definition fallback_message :: string where
  "fallback_message = [CHR 0xC4, CHR 0xAE] @ ''vyko klaida!''"

text \<open>
  What a rejected promise carries: any value. The \<^verbatim>\<open>catch\<close> block of
  \<^verbatim>\<open>handleBooking\<close> only asks whether it is an \<^verbatim>\<open>Error\<close> object, and then
  reads its \<^verbatim>\<open>message\<close>.
\<close>

datatype thrown = ErrorObj (message: string) | NonError

text \<open>\<^verbatim>\<open>err instanceof Error ? err.message : '...'\<close> (line 110).\<close>

fun catch_message :: "thrown \<Rightarrow> string" where
  "catch_message (ErrorObj m) = m"
| "catch_message NonError = fallback_message"

subsection \<open>\<^verbatim>\<open>String.prototype.split\<close>, \<^verbatim>\<open>parseInt\<close>, \<^verbatim>\<open>replace\<close>\<close>

text \<open>\<^verbatim>\<open>s.split(c)\<close> for a one-character separator: never the empty array.\<close>

fun split_on :: "char \<Rightarrow> string \<Rightarrow> string list" where
  "split_on c [] = [[]]"
| "split_on c (x # xs) =
     (if x = c then [] # split_on c xs
      else (case split_on c xs of
              [] \<Rightarrow> [[x]]
            | w # ws \<Rightarrow> (x # w) # ws))"

text \<open>
  Array destructuring \<^verbatim>\<open>const [hours, minutes] = ...\<close>: a missing element is
  \<^verbatim>\<open>undefined\<close>, here \<open>None\<close>.
\<close>

fun nth_opt :: "'a list \<Rightarrow> nat \<Rightarrow> 'a option" where
  "nth_opt [] n = None"
| "nth_opt (x # xs) 0 = Some x"
| "nth_opt (x # xs) (Suc n) = nth_opt xs n"

definition is_digit :: "char \<Rightarrow> bool" where
  "is_digit c = ((48::nat) \<le> of_char c \<and> of_char c \<le> (57::nat))"

definition is_space :: "char \<Rightarrow> bool" where
  "is_space c = (of_char c \<in> {9, 10, 11, 12, 13, 32::nat})"

definition digit_val :: "char \<Rightarrow> int" where
  "digit_val c = int (of_char c) - 48"

fun digits_val :: "int \<Rightarrow> string \<Rightarrow> int" where
  "digits_val acc [] = acc"
| "digits_val acc (c # cs) = digits_val (acc * 10 + digit_val c) cs"

definition parse_digits :: "string \<Rightarrow> int option" where
  "parse_digits s =
     (let ds = takeWhile is_digit s
      in if ds = [] then None else Some (digits_val 0 ds))"

text \<open>
  \<^verbatim>\<open>parseInt(x, 10)\<close>: leading white space is skipped (the ASCII white space
  characters here), then an optional sign, then the longest prefix of decimal digits;
  with no digit the result is \<^verbatim>\<open>NaN\<close>, here \<open>None\<close>. \<^verbatim>\<open>undefined\<close> is
  converted to the string \<^verbatim>\<open>"undefined"\<close>, which has no digit. Integers are exact
  here; a double differs only beyond \<open>2 ^ 53\<close>, where the date below is invalid anyway.
\<close>

definition parseInt10 :: "string option \<Rightarrow> int option" where
  "parseInt10 x =
     (case x of
        None \<Rightarrow> None
      | Some s \<Rightarrow>
          (case dropWhile is_space s of
             [] \<Rightarrow> None
           | c # cs \<Rightarrow>
               if c = CHR ''-'' then map_option uminus (parse_digits cs)
               else if c = CHR ''+'' then parse_digits cs
               else parse_digits (c # cs)))"

text \<open>\<^verbatim>\<open>s.replace(' ', 'T')\<close> with a string pattern replaces the first match only.\<close>

fun replace_first :: "char \<Rightarrow> char \<Rightarrow> string \<Rightarrow> string" where
  "replace_first a b [] = []"
| "replace_first a b (x # xs) = (if x = a then b # xs else x # replace_first a b xs)"

section \<open>Dates\<close>

text \<open>
  A \<^verbatim>\<open>Date\<close> holds a time value: milliseconds since 1970-01-01T00:00:00Z, or
  \<^verbatim>\<open>NaN\<close> for an invalid date (\<open>None\<close>). The operations below are those of the
  ECMAScript specification that \<^verbatim>\<open>formatDateTimeForWebhook\<close> calls. They are the
  platform's, not the repository's; \<open>div\<close> and \<open>mod\<close> on \<open>int\<close> round down, as
  \<^verbatim>\<open>floor\<close> and the specification's \<^verbatim>\<open>modulo\<close> do.
\<close>

definition msPerDay :: int where "msPerDay = 86400000"
definition msPerHour :: int where "msPerHour = 3600000"
definition msPerMinute :: int where "msPerMinute = 60000"
definition msPerSecond :: int where "msPerSecond = 1000"

definition Day :: "int \<Rightarrow> int" where "Day t = t div msPerDay"
definition HourFromTime :: "int \<Rightarrow> int" where "HourFromTime t = (t div msPerHour) mod 24"
definition MinFromTime :: "int \<Rightarrow> int" where "MinFromTime t = (t div msPerMinute) mod 60"
definition SecFromTime :: "int \<Rightarrow> int" where "SecFromTime t = (t div msPerSecond) mod 60"
definition msFromTime :: "int \<Rightarrow> int" where "msFromTime t = t mod msPerSecond"

definition MakeTime :: "int \<Rightarrow> int \<Rightarrow> int \<Rightarrow> int \<Rightarrow> int" where
  "MakeTime h m s ms = h * msPerHour + m * msPerMinute + s * msPerSecond + ms"

definition MakeDate :: "int \<Rightarrow> int \<Rightarrow> int" where
  "MakeDate day tm = day * msPerDay + tm"

definition TimeClip :: "int \<Rightarrow> int option" where
  "TimeClip t = (if \<bar>t\<bar> > 8640000000000000 then None else Some t)"

text \<open>
  Year, month (1 to 12) and day of the month of a day number (days since 1970-01-01) in
  the proleptic Gregorian calendar, and the day number of a calendar date.
\<close>

definition civil_from_days :: "int \<Rightarrow> int \<times> int \<times> int" where
  "civil_from_days z0 =
     (let z = z0 + 719468;
          era = z div 146097;
          doe = z mod 146097;
          yoe = (doe - doe div 1460 + doe div 36524 - doe div 146096) div 365;
          y = yoe + era * 400;
          doy = doe - (365 * yoe + yoe div 4 - yoe div 100);
          mp = (5 * doy + 2) div 153;
          d = doy - (153 * mp + 2) div 5 + 1;
          m = (if mp < 10 then mp + 3 else mp - 9)
      in (if m \<le> 2 then y + 1 else y, m, d))"

definition days_from_civil :: "int \<Rightarrow> int \<Rightarrow> int \<Rightarrow> int" where
  "days_from_civil y0 m d =
     (let y = (if m \<le> 2 then y0 - 1 else y0);
          era = y div 400;
          yoe = y mod 400;
          doy = (153 * (if m > 2 then m - 3 else m + 9) + 2) div 5 + d - 1;
          doe = yoe * 365 + yoe div 4 - yoe div 100 + doy
      in era * 146097 + doe - 719468)"

text \<open>\<^verbatim>\<open>WeekDay\<close>: 0 is Sunday; 1970-01-01 was a Thursday.\<close>

definition WeekDay :: "int \<Rightarrow> int" where
  "WeekDay day = (day + 4) mod 7"

subsection \<open>Time zones\<close>

text \<open>
  The time zone of the browser is part of the environment. It gives the offset from UTC
  in milliseconds, for a UTC time value (\<^verbatim>\<open>LocalTZA(t, true)\<close>) and for a local
  time value (\<^verbatim>\<open>LocalTZA(t, false)\<close>).
\<close>

record timezone =
  tza_of_utc :: "int \<Rightarrow> int"
  tza_of_local :: "int \<Rightarrow> int"

definition LocalTime :: "timezone \<Rightarrow> int \<Rightarrow> int" where
  "LocalTime z t = t + tza_of_utc z t"

definition UTC :: "timezone \<Rightarrow> int \<Rightarrow> int" where
  "UTC z t = t - tza_of_local z t"

text \<open>A zone with one offset all year, given in minutes east of Greenwich.\<close>

definition fixed_zone :: "int \<Rightarrow> timezone" where
  "fixed_zone mins = \<lparr> tza_of_utc = (\<lambda>t. mins * msPerMinute),
                        tza_of_local = (\<lambda>t. mins * msPerMinute) \<rparr>"

text \<open>
  The zone \<^verbatim>\<open>Europe/Vilnius\<close> of the time zone database, for time values from 2003
  on: Eastern European Time, two hours east of Greenwich, and three hours during
  European summer time, which runs from 01:00 UTC on the last Sunday of March to
  01:00 UTC on the last Sunday of October.
\<close>

definition last_sunday :: "int \<Rightarrow> int \<Rightarrow> int" where
  "last_sunday y m = (let d = days_from_civil y m 31 in d - WeekDay d)"

definition eu_summer_time :: "int \<Rightarrow> bool" where
  "eu_summer_time t =
     (let y = fst (civil_from_days (Day t))
      in last_sunday y 3 * msPerDay + msPerHour \<le> t
         \<and> t < last_sunday y 10 * msPerDay + msPerHour)"

definition vilnius_tza :: "int \<Rightarrow> int" where
  "vilnius_tza t = (if eu_summer_time t then 3 * msPerHour else 2 * msPerHour)"

subsection \<open>The \<^verbatim>\<open>Date\<close> methods the component calls\<close>

text \<open>
  \<^verbatim>\<open>setHours(h)\<close>, \<^verbatim>\<open>setMinutes(m)\<close> and \<^verbatim>\<open>setSeconds(s)\<close> replace one field
  of the date read in the browser's local time.
\<close>

definition setHours :: "timezone \<Rightarrow> int option \<Rightarrow> int option \<Rightarrow> int option" where
  "setHours z h d =
     (case d of
        None \<Rightarrow> None
      | Some t \<Rightarrow>
          (case h of
             None \<Rightarrow> None
           | Some hv \<Rightarrow>
               (let lt = LocalTime z t
                in TimeClip (UTC z (MakeDate (Day lt)
                     (MakeTime hv (MinFromTime lt) (SecFromTime lt) (msFromTime lt)))))))"

definition setMinutes :: "timezone \<Rightarrow> int option \<Rightarrow> int option \<Rightarrow> int option" where
  "setMinutes z m d =
     (case d of
        None \<Rightarrow> None
      | Some t \<Rightarrow>
          (case m of
             None \<Rightarrow> None
           | Some mv \<Rightarrow>
               (let lt = LocalTime z t
                in TimeClip (UTC z (MakeDate (Day lt)
                     (MakeTime (HourFromTime lt) mv (SecFromTime lt) (msFromTime lt)))))))"

definition setSeconds :: "timezone \<Rightarrow> int option \<Rightarrow> int option \<Rightarrow> int option" where
  "setSeconds z s d =
     (case d of
        None \<Rightarrow> None
      | Some t \<Rightarrow>
          (case s of
             None \<Rightarrow> None
           | Some sv \<Rightarrow>
               (let lt = LocalTime z t
                in TimeClip (UTC z (MakeDate (Day lt)
                     (MakeTime (HourFromTime lt) (MinFromTime lt) sv (msFromTime lt)))))))"

text \<open>Decimal digits, padded with zeros to a width.\<close>

definition digit_char :: "nat \<Rightarrow> char" where
  "digit_char n = char_of (48 + n mod 10)"

fun pad_dec :: "nat \<Rightarrow> nat \<Rightarrow> string" where
  "pad_dec 0 n = (if n = 0 then [] else pad_dec 0 (n div 10) @ [digit_char n])"
| "pad_dec (Suc w) n = pad_dec w (n div 10) @ [digit_char n]"

definition show_year :: "int \<Rightarrow> string" where
  "show_year y = (if y < 0 then CHR ''-'' # pad_dec 4 (nat (- y)) else pad_dec 4 (nat y))"

text \<open>The calendar date of a time value already shifted to a zone's wall clock.\<close>

definition ymd_string :: "int \<Rightarrow> string" where
  "ymd_string lt =
     (case civil_from_days (Day lt) of
        (y, m, d) \<Rightarrow> show_year y @ ''-'' @ pad_dec 2 (nat m) @ ''-'' @ pad_dec 2 (nat d))"

definition hms_string :: "int \<Rightarrow> string" where
  "hms_string lt =
     pad_dec 2 (nat (HourFromTime lt)) @ '':'' @ pad_dec 2 (nat (MinFromTime lt))
       @ '':'' @ pad_dec 2 (nat (SecFromTime lt))"

text \<open>
  \<^verbatim>\<open>d.toLocaleString('sv', { timeZone: 'Europe/Vilnius' })\<close>: the Swedish locale
  writes \<^verbatim>\<open>YYYY-MM-DD HH:mm:ss\<close>, the wall clock being that of Vilnius.
\<close>

definition toLocaleString_sv_Vilnius :: "int option \<Rightarrow> string" where
  "toLocaleString_sv_Vilnius d =
     (case d of
        None \<Rightarrow> ''Invalid Date''
      | Some t \<Rightarrow> (let lt = t + vilnius_tza t in ymd_string lt @ '' '' @ hms_string lt))"

text \<open>
  \<^verbatim>\<open>format(date, 'yyyy-MM-dd')\<close> of date-fns, on a valid date: the calendar date in
  the browser's local time.
\<close>

definition format_yyyy_MM_dd :: "timezone \<Rightarrow> int \<Rightarrow> string" where
  "format_yyyy_MM_dd z t = ymd_string (LocalTime z t)"

section \<open>The timestamp sent to the webhook\<close>

text \<open>\<^verbatim>\<open>formatDateTimeForWebhook\<close>, lines 47 to 57.\<close>

definition formatDateTimeForWebhook :: "timezone \<Rightarrow> int \<Rightarrow> string \<Rightarrow> string" where
  "formatDateTimeForWebhook z date timeString =
     (let parts = split_on CHR '':'' timeString;
          hours = nth_opt parts 0;
          minutes = nth_opt parts 1;
          bookingDate = Some date;
          bookingDate = setHours z (parseInt10 hours) bookingDate;
          bookingDate = setMinutes z (parseInt10 minutes) bookingDate;
          bookingDate = setSeconds z (Some 0) bookingDate
      in replace_first CHR '' '' CHR ''T'' (toLocaleString_sv_Vilnius bookingDate) @ ''+02:00'')"

section \<open>The widget: state, environment, events\<close>

text \<open>
  A \<^verbatim>\<open>TimeSlot\<close> as the component reads it (\<^verbatim>\<open>slot.time\<close>,
  \<^verbatim>\<open>slot.available\<close>), and an entry of the \<^verbatim>\<open>cabins\<close> catalogue, of which
  the logic reads \<^verbatim>\<open>id\<close> and \<^verbatim>\<open>name\<close> (the price is only displayed).
\<close>

record time_slot =
  slot_time :: string
  available :: bool

record cabin =
  cabin_id :: string
  cabin_name :: string
  description :: string

text \<open>The user of the authentication context: \<^verbatim>\<open>user?.uid\<close>.\<close>

record auth_user =
  uid :: string

text \<open>The eight \<^verbatim>\<open>useState\<close> cells of lines 11 to 18.\<close>

record state =
  selectedDate :: int
  selectedCabin :: string
  selectedTime :: string
  loading :: bool
  timeSlots :: "time_slot list"
  error :: string
  fullName :: string
  email :: string

text \<open>The state after mounting at time value \<open>now\<close>: everything but the date is empty.\<close>

definition initial_state :: "int \<Rightarrow> state" where
  "initial_state now =
     \<lparr> selectedDate = now, selectedCabin = [], selectedTime = [], loading = False,
       timeSlots = [], error = [], fullName = [], email = [] \<rparr>"

text \<open>The JSON body posted to the webhook (lines 85 to 92) and the request around it.\<close>

record webhook_body =
  wh_fullName :: string
  wh_email :: string
  dateTime :: string
  timeZone :: string
  wh_cabin :: string
  cabinName :: string

record webhook_request =
  url :: string
  http_method :: string
  content_type :: string
  body :: webhook_body

text \<open>
  What \<^verbatim>\<open>fetch\<close> resolves to: a response with a status code. The component never
  reads it.
\<close>

record http_response =
  status_code :: nat

text \<open>The argument of \<^verbatim>\<open>createBooking\<close> (lines 70 to 74 and 95 to 100).\<close>

record booking =
  b_cabin :: string
  b_date :: string
  b_time :: string
  userId :: string
  userEmail :: string
  status :: string

text \<open>
  The collaborators and the platform: the browser's time zone, the cabin catalogue, the
  signed-in user if any, and the three asynchronous calls, each of which answers a
  request with a value (\<open>Inr\<close>) or rejects with a thrown value (\<open>Inl\<close>).
\<close>

record env =
  localZone :: timezone
  cabins :: "cabin list"
  user :: "auth_user option"
  fetchAvailableTimeSlots :: "string \<Rightarrow> string \<Rightarrow> thrown + time_slot list"
  fetch :: "webhook_request \<Rightarrow> thrown + http_response"
  createBooking :: "booking \<Rightarrow> thrown + unit"

text \<open>
  What a handler does, in order: calls of the state setters, calls of the collaborators,
  and \<^verbatim>\<open>e.preventDefault()\<close>.
\<close>

datatype event =
    SetSelectedDate int
  | SetSelectedCabin string
  | SetSelectedTime string
  | SetLoading bool
  | SetTimeSlots "time_slot list"
  | SetError string
  | SetFullName string
  | SetEmail string
  | PreventDefault
  | CallFetchAvailableTimeSlots string string
  | CallFetch webhook_request
  | CallCreateBooking booking

fun apply_event :: "event \<Rightarrow> state \<Rightarrow> state" where
  "apply_event (SetSelectedDate d) s = s\<lparr>selectedDate := d\<rparr>"
| "apply_event (SetSelectedCabin c) s = s\<lparr>selectedCabin := c\<rparr>"
| "apply_event (SetSelectedTime t) s = s\<lparr>selectedTime := t\<rparr>"
| "apply_event (SetLoading b) s = s\<lparr>loading := b\<rparr>"
| "apply_event (SetTimeSlots ts) s = s\<lparr>timeSlots := ts\<rparr>"
| "apply_event (SetError e) s = s\<lparr>error := e\<rparr>"
| "apply_event (SetFullName n) s = s\<lparr>fullName := n\<rparr>"
| "apply_event (SetEmail m) s = s\<lparr>email := m\<rparr>"
| "apply_event PreventDefault s = s"
| "apply_event (CallFetchAvailableTimeSlots c d) s = s"
| "apply_event (CallFetch r) s = s"
| "apply_event (CallCreateBooking b) s = s"

text \<open>The state once every event of a handler has happened.\<close>

fun run :: "event list \<Rightarrow> state \<Rightarrow> state" where
  "run [] s = s"
| "run (e # es) s = run es (apply_event e s)"

text \<open>
  The calls that leave the browser, the calls of \<^verbatim>\<open>setLoading\<close> and the calls of
  \<^verbatim>\<open>setSelectedDate\<close>.
\<close>

fun is_network :: "event \<Rightarrow> bool" where
  "is_network (CallFetchAvailableTimeSlots c d) = True"
| "is_network (CallFetch r) = True"
| "is_network (CallCreateBooking b) = True"
| "is_network e = False"

fun is_set_loading :: "event \<Rightarrow> bool" where
  "is_set_loading (SetLoading b) = True"
| "is_set_loading e = False"

fun is_set_selected_date :: "event \<Rightarrow> bool" where
  "is_set_selected_date (SetSelectedDate d) = True"
| "is_set_selected_date e = False"

definition network_calls :: "event list \<Rightarrow> event list" where
  "network_calls es = filter is_network es"

section \<open>The handlers\<close>

text \<open>\<^verbatim>\<open>loadTimeSlots\<close>, lines 20 to 32.\<close>

definition loadTimeSlots :: "env \<Rightarrow> string \<Rightarrow> int \<Rightarrow> event list" where
  "loadTimeSlots e cabinId date =
     [SetLoading True, SetError []]
     @ (let d = format_yyyy_MM_dd (localZone e) date
        in CallFetchAvailableTimeSlots cabinId d
           # (case fetchAvailableTimeSlots e cabinId d of
                Inr slots \<Rightarrow> [SetTimeSlots slots]
              | Inl err \<Rightarrow> [SetError load_failed_message, SetTimeSlots []]))
     @ [SetLoading False]"

text \<open>
  The effect of lines 34 to 40, which React runs after a render in which the selected
  cabin or the selected date has changed.
\<close>

definition selection_effect :: "env \<Rightarrow> state \<Rightarrow> event list" where
  "selection_effect e s =
     (if truthy (selectedCabin s) then loadTimeSlots e (selectedCabin s) (selectedDate s)
      else [SetTimeSlots []])"

text \<open>\<^verbatim>\<open>handleCabinSelect\<close>, lines 42 to 45.\<close>

definition handleCabinSelect :: "string \<Rightarrow> event list" where
  "handleCabinSelect cabinId = [SetSelectedCabin cabinId, SetSelectedTime []]"

text \<open>
  The values \<^verbatim>\<open>handleBooking\<close> builds from the state before it calls out:
  \<^verbatim>\<open>cabins.find(c => c.id === selectedCabin)?.name || ''\<close>,
  \<^verbatim>\<open>user?.uid || 'anonymous'\<close>, the request of the \<^verbatim>\<open>fetch\<close> call and the
  record given to \<^verbatim>\<open>createBooking\<close>.
\<close>

definition cabin_display_name :: "env \<Rightarrow> string \<Rightarrow> string" where
  "cabin_display_name e c =
     (case find (\<lambda>x. cabin_id x = c) (cabins e) of
        None \<Rightarrow> []
      | Some x \<Rightarrow> cabin_name x)"

definition acting_user_id :: "env \<Rightarrow> string" where
  "acting_user_id e =
     (case user e of
        None \<Rightarrow> ''anonymous''
      | Some u \<Rightarrow> if truthy (uid u) then uid u else ''anonymous'')"

definition webhook_url :: string where
  "webhook_url = ''https://hook.eu2.make.com/yw5ie28y0kmrkeafigpynd289dk6u1qh''"

definition webhook_request_of :: "env \<Rightarrow> state \<Rightarrow> webhook_request" where
  "webhook_request_of e s =
     \<lparr> url = webhook_url,
       http_method = ''POST'',
       content_type = ''application/json'',
       body = \<lparr> wh_fullName = fullName s,
                wh_email = email s,
                dateTime = formatDateTimeForWebhook (localZone e) (selectedDate s) (selectedTime s),
                timeZone = ''Europe/Vilnius'',
                wh_cabin = selectedCabin s,
                cabinName = cabin_display_name e (selectedCabin s) \<rparr> \<rparr>"

definition booking_of :: "env \<Rightarrow> state \<Rightarrow> booking" where
  "booking_of e s =
     \<lparr> b_cabin = selectedCabin s,
       b_date = format_yyyy_MM_dd (localZone e) (selectedDate s),
       b_time = selectedTime s,
       userId = acting_user_id e,
       userEmail = email s,
       status = ''confirmed'' \<rparr>"

text \<open>The six setter calls under the comment \<^verbatim>\<open>// Reset form\<close>, lines 103 to 108.\<close>

definition reset_form :: "event list" where
  "reset_form =
     [SetSelectedCabin [], SetSelectedTime [], SetTimeSlots [], SetFullName [],
      SetEmail [], SetError []]"

text \<open>
  \<^verbatim>\<open>handleBooking\<close>, lines 59 to 114. The early \<^verbatim>\<open>return\<close> of line 63 stands
  before the \<^verbatim>\<open>try\<close>, so the \<^verbatim>\<open>finally\<close> block does not run after it. Inside
  the \<^verbatim>\<open>try\<close>, a rejected \<^verbatim>\<open>await\<close> jumps to the \<^verbatim>\<open>catch\<close> block, and the
  \<^verbatim>\<open>finally\<close> block runs last on every path.
\<close>

definition handleBooking :: "env \<Rightarrow> state \<Rightarrow> event list" where
  "handleBooking e s =
     PreventDefault
     # (if \<not> truthy (selectedCabin s) \<or> \<not> truthy (selectedTime s)
           \<or> \<not> truthy (fullName s) \<or> \<not> truthy (email s)
        then [SetError validation_message]
        else [SetLoading True, SetError []]
             @ (CallFetch (webhook_request_of e s)
                # (case fetch e (webhook_request_of e s) of
                     Inl err \<Rightarrow> [SetError (catch_message err)]
                   | Inr response \<Rightarrow>
                       CallCreateBooking (booking_of e s)
                       # (case createBooking e (booking_of e s) of
                            Inl err \<Rightarrow> [SetError (catch_message err)]
                          | Inr confirmation \<Rightarrow> reset_form)))
             @ [SetLoading False])"

text \<open>The \<^verbatim>\<open>disabled\<close> attribute of the submit button, line 260.\<close>

definition submit_disabled :: "state \<Rightarrow> bool" where
  "submit_disabled s =
     (loading s \<or> \<not> truthy (selectedCabin s) \<or> \<not> truthy (selectedTime s)
      \<or> \<not> truthy (fullName s) \<or> \<not> truthy (email s))"

section \<open>Concrete inputs\<close>

text \<open>
  A filled-in form for the cabin \<^verbatim>\<open>sauna-a\<close> on 2025-06-10 (the time value is
  2025-06-10T09:00:00Z) at 14:30, and environments whose three collaborators give the
  stated answers, in a browser three hours east of Greenwich (the offset of Vilnius in
  June).
\<close>

definition demo_slots :: "time_slot list" where
  "demo_slots = [\<lparr> slot_time = ''14:00'', available = False \<rparr>,
                 \<lparr> slot_time = ''14:30'', available = True \<rparr>]"

definition demo_state :: state where
  "demo_state =
     \<lparr> selectedDate = 1749546000000, selectedCabin = ''sauna-a'', selectedTime = ''14:30'',
       loading = False, timeSlots = demo_slots, error = [],
       fullName = ''Jonas Jonaitis'', email = ''jonas@pavyzdys.lt'' \<rparr>"

definition demo_env ::
  "(thrown + time_slot list) \<Rightarrow> (thrown + http_response) \<Rightarrow> (thrown + unit) \<Rightarrow> env" where
  "demo_env l w p =
     \<lparr> localZone = fixed_zone 180,
       cabins = [\<lparr> cabin_id = ''sauna-a'', cabin_name = ''Sauna A'', description = [] \<rparr>],
       user = None,
       fetchAvailableTimeSlots = (\<lambda>c d. l),
       fetch = (\<lambda>r. w),
       createBooking = (\<lambda>b. p) \<rparr>"

text \<open>The environment in which every call succeeds.\<close>

definition happy_env :: env where
  "happy_env = demo_env (Inr demo_slots) (Inr \<lparr> status_code = 200 \<rparr>) (Inr ())"

text \<open>
  Environments in which one call is rejected: the webhook with a value that is no
  \<^verbatim>\<open>Error\<close>; persistence with an \<^verbatim>\<open>Error\<close>, after the webhook has answered
  with HTTP status 500; persistence with an \<^verbatim>\<open>Error\<close> whose message is empty
  (\<^verbatim>\<open>new Error()\<close>); the availability query.
\<close>

definition webhook_down_env :: env where
  "webhook_down_env = demo_env (Inr demo_slots) (Inl NonError) (Inr ())"

definition persistence_down_env :: env where
  "persistence_down_env =
     demo_env (Inr demo_slots) (Inr \<lparr> status_code = 500 \<rparr>)
       (Inl (ErrorObj ''permission denied''))"

definition silent_failure_env :: env where
  "silent_failure_env =
     demo_env (Inr demo_slots) (Inr \<lparr> status_code = 200 \<rparr>) (Inl (ErrorObj []))"

definition load_down_env :: env where
  "load_down_env =
     demo_env (Inl (ErrorObj ''offline'')) (Inr \<lparr> status_code = 200 \<rparr>) (Inr ())"

text \<open>An environment whose availability query answers with slots other than \<open>demo_slots\<close>.\<close>

definition fresh_slots :: "time_slot list" where
  "fresh_slots = [\<lparr> slot_time = ''09:00'', available = True \<rparr>]"

definition load_ok_env :: env where
  "load_ok_env = demo_env (Inr fresh_slots) (Inr \<lparr> status_code = 200 \<rparr>) (Inr ())"

section \<open>Basic facts about the handlers\<close>

lemma truthy_iff: "truthy s \<longleftrightarrow> s \<noteq> []"
  by (simp add: truthy_def)

lemma run_append: "run (xs @ ys) s = run ys (run xs s)"
  by (induction xs arbitrary: s) simp_all

lemma validation_message_nonempty: "validation_message \<noteq> []"
  by (simp add: validation_message_def)

lemma fallback_message_nonempty: "fallback_message \<noteq> []"
  by (simp add: fallback_message_def)

lemma handleBooking_invalid:
  assumes "selectedCabin s = [] \<or> selectedTime s = [] \<or> fullName s = [] \<or> email s = []"
  shows "handleBooking e s = [PreventDefault, SetError validation_message]"
  using assms by (auto simp: handleBooking_def truthy_iff)

lemma handleBooking_valid:
  assumes "selectedCabin s \<noteq> []" "selectedTime s \<noteq> []" "fullName s \<noteq> []" "email s \<noteq> []"
  shows "handleBooking e s =
     [PreventDefault, SetLoading True, SetError [], CallFetch (webhook_request_of e s)]
     @ (case fetch e (webhook_request_of e s) of
          Inl err \<Rightarrow> [SetError (catch_message err)]
        | Inr response \<Rightarrow>
            CallCreateBooking (booking_of e s)
            # (case createBooking e (booking_of e s) of
                 Inl err \<Rightarrow> [SetError (catch_message err)]
               | Inr confirmation \<Rightarrow> reset_form))
     @ [SetLoading False]"
  using assms by (simp add: handleBooking_def truthy_iff)

lemma demo_state_valid:
  "selectedCabin demo_state \<noteq> []" "selectedTime demo_state \<noteq> []"
  "fullName demo_state \<noteq> []" "email demo_state \<noteq> []"
  by (simp_all add: demo_state_def)

lemma loadTimeSlots_Inl:
  assumes "fetchAvailableTimeSlots e c (format_yyyy_MM_dd (localZone e) d) = Inl err"
  shows "loadTimeSlots e c d =
     [SetLoading True, SetError [],
      CallFetchAvailableTimeSlots c (format_yyyy_MM_dd (localZone e) d),
      SetError load_failed_message, SetTimeSlots [], SetLoading False]"
  using assms by (simp add: loadTimeSlots_def Let_def)

lemma loadTimeSlots_Inr:
  assumes "fetchAvailableTimeSlots e c (format_yyyy_MM_dd (localZone e) d) = Inr slots"
  shows "loadTimeSlots e c d =
     [SetLoading True, SetError [],
      CallFetchAvailableTimeSlots c (format_yyyy_MM_dd (localZone e) d),
      SetTimeSlots slots, SetLoading False]"
  using assms by (simp add: loadTimeSlots_def Let_def)

text \<open>Loading slots touches the loading flag, the error and the slot list only.\<close>

lemma loadTimeSlots_frame:
  "selectedTime (run (loadTimeSlots e c d) s) = selectedTime s"
  "selectedCabin (run (loadTimeSlots e c d) s) = selectedCabin s"
  "selectedDate (run (loadTimeSlots e c d) s) = selectedDate s"
  "fullName (run (loadTimeSlots e c d) s) = fullName s"
  "email (run (loadTimeSlots e c d) s) = email s"
  by (cases "fetchAvailableTimeSlots e c (format_yyyy_MM_dd (localZone e) d)";
      simp add: loadTimeSlots_Inl loadTimeSlots_Inr)+

lemma selection_effect_selectedTime:
  "selectedTime (run (selection_effect e s') s) = selectedTime s"
  by (simp add: selection_effect_def loadTimeSlots_frame)

section \<open>Validation before any call\<close>

text \<open>
  C1. When the selected cabin, the selected time, the full name or the email is empty,
  \<^verbatim>\<open>handleBooking\<close> only sets the error to the (non-empty) Lithuanian validation
  message: the rest of the state is as before, no call to a collaborator is made, and
  \<^verbatim>\<open>setLoading\<close> is not called at all, so the loading flag keeps its value.
\<close>

theorem handleBooking_missing_field:
  assumes "selectedCabin s = [] \<or> selectedTime s = [] \<or> fullName s = [] \<or> email s = []"
  shows "run (handleBooking e s) s = s\<lparr>error := validation_message\<rparr>
       \<and> validation_message \<noteq> []
       \<and> network_calls (handleBooking e s) = []
       \<and> filter is_set_loading (handleBooking e s) = []
       \<and> loading (run (handleBooking e s) s) = loading s"
proof -
  have tr: "handleBooking e s = [PreventDefault, SetError validation_message]"
    using assms by (rule handleBooking_invalid)
  show ?thesis
    by (simp add: tr network_calls_def validation_message_nonempty)
qed

text \<open>The example of the specification: every field filled in but the full name.\<close>

theorem handleBooking_missing_field_witness:
  "run (handleBooking happy_env (demo_state\<lparr>fullName := []\<rparr>)) (demo_state\<lparr>fullName := []\<rparr>)
     = demo_state\<lparr>fullName := [], error := validation_message\<rparr>
   \<and> network_calls (handleBooking happy_env (demo_state\<lparr>fullName := []\<rparr>)) = []
   \<and> filter is_set_loading (handleBooking happy_env (demo_state\<lparr>fullName := []\<rparr>)) = []"
  using handleBooking_missing_field [of "demo_state\<lparr>fullName := []\<rparr>" happy_env]
  by (simp add: demo_state_def)

section \<open>A successful submission\<close>

text \<open>
  C2. When validation passes, the webhook call resolves and \<^verbatim>\<open>createBooking\<close>
  resolves, then the selected cabin, the selected time, the full name, the email, the
  slot list and the error message are all empty afterwards, as in the initial state. The
  effect that follows the change of the selected cabin leaves that state as it is.
\<close>

theorem handleBooking_success_resets:
  assumes valid: "selectedCabin s \<noteq> []" "selectedTime s \<noteq> []" "fullName s \<noteq> []" "email s \<noteq> []"
    and webhook: "fetch e (webhook_request_of e s) = Inr response"
    and persisted: "createBooking e (booking_of e s) = Inr confirmation"
  shows "selectedCabin (run (handleBooking e s) s) = []
       \<and> selectedTime (run (handleBooking e s) s) = []
       \<and> fullName (run (handleBooking e s) s) = []
       \<and> email (run (handleBooking e s) s) = []
       \<and> timeSlots (run (handleBooking e s) s) = []
       \<and> error (run (handleBooking e s) s) = []
       \<and> selectedCabin (initial_state now) = [] \<and> selectedTime (initial_state now) = []
       \<and> fullName (initial_state now) = [] \<and> email (initial_state now) = []
       \<and> timeSlots (initial_state now) = [] \<and> error (initial_state now) = []
       \<and> run (selection_effect e (run (handleBooking e s) s)) (run (handleBooking e s) s)
           = run (handleBooking e s) s"
proof -
  have tr: "handleBooking e s =
      [PreventDefault, SetLoading True, SetError [], CallFetch (webhook_request_of e s),
       CallCreateBooking (booking_of e s)] @ reset_form @ [SetLoading False]"
    by (simp add: handleBooking_valid [OF valid] webhook persisted)
  have fin: "run (handleBooking e s) s =
      s\<lparr>loading := False, error := [], selectedCabin := [], selectedTime := [],
        timeSlots := [], fullName := [], email := []\<rparr>"
    by (simp add: tr reset_form_def)
  show ?thesis
    by (simp add: fin initial_state_def selection_effect_def truthy_iff)
qed

theorem handleBooking_success_resets_witness:
  "selectedCabin (run (handleBooking happy_env demo_state) demo_state) = []
   \<and> selectedTime (run (handleBooking happy_env demo_state) demo_state) = []
   \<and> fullName (run (handleBooking happy_env demo_state) demo_state) = []
   \<and> email (run (handleBooking happy_env demo_state) demo_state) = []
   \<and> timeSlots (run (handleBooking happy_env demo_state) demo_state) = []
   \<and> error (run (handleBooking happy_env demo_state) demo_state) = []"
proof -
  have w: "fetch happy_env (webhook_request_of happy_env demo_state) = Inr \<lparr> status_code = 200 \<rparr>"
    by (simp add: happy_env_def demo_env_def)
  have p: "createBooking happy_env (booking_of happy_env demo_state) = Inr ()"
    by (simp add: happy_env_def demo_env_def)
  from handleBooking_success_resets [OF demo_state_valid w p, of 0]
  show ?thesis by simp
qed

text \<open>
  C9. After such a submission the selected date is the one selected before:
  \<^verbatim>\<open>setSelectedDate\<close> is not among the calls made, and the whole state is the
  initial state for that date (cabin, time, name, email, slot list and error empty,
  loading flag cleared).
\<close>

theorem handleBooking_success_keeps_date:
  assumes valid: "selectedCabin s \<noteq> []" "selectedTime s \<noteq> []" "fullName s \<noteq> []" "email s \<noteq> []"
    and webhook: "fetch e (webhook_request_of e s) = Inr response"
    and persisted: "createBooking e (booking_of e s) = Inr confirmation"
  shows "selectedDate (run (handleBooking e s) s) = selectedDate s
       \<and> run (handleBooking e s) s = initial_state (selectedDate s)
       \<and> filter is_set_selected_date (handleBooking e s) = []"
proof -
  have tr: "handleBooking e s =
      [PreventDefault, SetLoading True, SetError [], CallFetch (webhook_request_of e s),
       CallCreateBooking (booking_of e s), SetSelectedCabin [], SetSelectedTime [],
       SetTimeSlots [], SetFullName [], SetEmail [], SetError [], SetLoading False]"
    by (simp add: handleBooking_valid [OF valid] webhook persisted reset_form_def)
  show ?thesis
    unfolding tr by (simp add: initial_state_def)
qed

theorem handleBooking_success_keeps_date_witness:
  "selectedDate (run (handleBooking happy_env demo_state) demo_state) = 1749546000000
   \<and> run (handleBooking happy_env demo_state) demo_state = initial_state 1749546000000"
proof -
  have w: "fetch happy_env (webhook_request_of happy_env demo_state) = Inr \<lparr> status_code = 200 \<rparr>"
    by (simp add: happy_env_def demo_env_def)
  have p: "createBooking happy_env (booking_of happy_env demo_state) = Inr ()"
    by (simp add: happy_env_def demo_env_def)
  have d: "selectedDate demo_state = 1749546000000"
    by (simp add: demo_state_def)
  from handleBooking_success_keeps_date [OF demo_state_valid w p] d
  show ?thesis by (simp add: initial_state_def)
qed

section \<open>A failed submission\<close>

text \<open>
  C3 as stated fails. The \<^verbatim>\<open>catch\<close> block asks whether the thrown value is an
  \<^verbatim>\<open>Error\<close>, not whether its message is empty: when \<^verbatim>\<open>createBooking\<close>
  rejects with an \<^verbatim>\<open>Error\<close> whose message is the empty string, a validated
  submission fails and leaves the error message empty.
\<close>

theorem handleBooking_failure_empty_message_counterexample:
  "selectedCabin demo_state \<noteq> [] \<and> selectedTime demo_state \<noteq> []
   \<and> fullName demo_state \<noteq> [] \<and> email demo_state \<noteq> []
   \<and> fetch silent_failure_env (webhook_request_of silent_failure_env demo_state)
       = Inr \<lparr> status_code = 200 \<rparr>
   \<and> createBooking silent_failure_env (booking_of silent_failure_env demo_state)
       = Inl (ErrorObj [])
   \<and> error (run (handleBooking silent_failure_env demo_state) demo_state) = []"
proof -
  have w: "fetch silent_failure_env (webhook_request_of silent_failure_env demo_state)
             = Inr \<lparr> status_code = 200 \<rparr>"
    by (simp add: silent_failure_env_def demo_env_def)
  have p: "createBooking silent_failure_env (booking_of silent_failure_env demo_state)
             = Inl (ErrorObj [])"
    by (simp add: silent_failure_env_def demo_env_def)
  have "error (run (handleBooking silent_failure_env demo_state) demo_state) = []"
    by (simp add: handleBooking_valid [OF demo_state_valid] w p)
  with w p show ?thesis
    by (simp add: demo_state_valid)
qed

text \<open>
  C3, amended. When validation passes and the webhook call or \<^verbatim>\<open>createBooking\<close>
  rejects, every cell of the state but the loading flag and the error keeps its value,
  the loading flag is cleared, and the error is the thrown value's message when that
  value is an \<^verbatim>\<open>Error\<close> and the (non-empty) fallback message otherwise. So the
  error is empty exactly when the thrown value is an \<^verbatim>\<open>Error\<close> with an empty
  message.
\<close>

theorem handleBooking_failure_keeps_selection:
  assumes valid: "selectedCabin s \<noteq> []" "selectedTime s \<noteq> []" "fullName s \<noteq> []" "email s \<noteq> []"
    and failed: "fetch e (webhook_request_of e s) = Inl err
        \<or> (fetch e (webhook_request_of e s) = Inr response
            \<and> createBooking e (booking_of e s) = Inl err)"
  shows "run (handleBooking e s) s = s\<lparr>loading := False, error := catch_message err\<rparr>
       \<and> catch_message err = (case err of ErrorObj m \<Rightarrow> m | NonError \<Rightarrow> fallback_message)
       \<and> fallback_message \<noteq> []
       \<and> (error (run (handleBooking e s) s) = [] \<longleftrightarrow> err = ErrorObj [])"
proof -
  have tr: "handleBooking e s =
      [PreventDefault, SetLoading True, SetError [], CallFetch (webhook_request_of e s)]
      @ (case fetch e (webhook_request_of e s) of
           Inl x \<Rightarrow> [SetError (catch_message x)]
         | Inr x \<Rightarrow> [CallCreateBooking (booking_of e s), SetError (catch_message err)])
      @ [SetLoading False]"
    using failed by (auto simp: handleBooking_valid [OF valid])
  have st: "run (handleBooking e s) s = s\<lparr>loading := False, error := catch_message err\<rparr>"
    using failed by (auto simp: tr)
  have empty: "catch_message err = [] \<longleftrightarrow> err = ErrorObj []"
    by (cases err) (simp_all add: fallback_message_nonempty)
  show ?thesis
    by (simp add: st empty fallback_message_nonempty split: thrown.split)
qed

theorem handleBooking_failure_keeps_selection_witness:
  "run (handleBooking persistence_down_env demo_state) demo_state
     = demo_state\<lparr>loading := False, error := ''permission denied''\<rparr>
   \<and> run (handleBooking webhook_down_env demo_state) demo_state
     = demo_state\<lparr>loading := False, error := fallback_message\<rparr>"
proof -
  have p: "fetch persistence_down_env (webhook_request_of persistence_down_env demo_state)
             = Inl (ErrorObj ''permission denied'')
         \<or> (fetch persistence_down_env (webhook_request_of persistence_down_env demo_state)
               = Inr \<lparr> status_code = 500 \<rparr>
            \<and> createBooking persistence_down_env (booking_of persistence_down_env demo_state)
               = Inl (ErrorObj ''permission denied''))"
    by (simp add: persistence_down_env_def demo_env_def)
  have w: "fetch webhook_down_env (webhook_request_of webhook_down_env demo_state) = Inl NonError
         \<or> (fetch webhook_down_env (webhook_request_of webhook_down_env demo_state)
               = Inr \<lparr> status_code = 200 \<rparr>
            \<and> createBooking webhook_down_env (booking_of webhook_down_env demo_state)
               = Inl NonError)"
    by (simp add: webhook_down_env_def demo_env_def)
  from handleBooking_failure_keeps_selection [OF demo_state_valid p]
       handleBooking_failure_keeps_selection [OF demo_state_valid w]
  show ?thesis by simp
qed

section \<open>Loading the time slots\<close>

text \<open>
  C4. When \<^verbatim>\<open>fetchAvailableTimeSlots\<close> rejects, whatever it throws,
  \<^verbatim>\<open>loadTimeSlots\<close> leaves the slot list empty and the error set to the fixed
  message \<^verbatim>\<open>Failed to load available time slots\<close>; when it resolves, the slot
  list afterwards is exactly the list it returned, whatever the list was before, and the
  error is empty.
\<close>

theorem loadTimeSlots_replaces_or_clears:
  "(fetchAvailableTimeSlots e c (format_yyyy_MM_dd (localZone e) d) = Inl err \<longrightarrow>
      run (loadTimeSlots e c d) s
        = s\<lparr>loading := False, error := load_failed_message, timeSlots := []\<rparr>)
   \<and> (fetchAvailableTimeSlots e c (format_yyyy_MM_dd (localZone e) d) = Inr slots \<longrightarrow>
      run (loadTimeSlots e c d) s = s\<lparr>loading := False, error := [], timeSlots := slots\<rparr>)
   \<and> load_failed_message \<noteq> []"
proof (intro conjI impI)
  assume "fetchAvailableTimeSlots e c (format_yyyy_MM_dd (localZone e) d) = Inl err"
  then show "run (loadTimeSlots e c d) s
        = s\<lparr>loading := False, error := load_failed_message, timeSlots := []\<rparr>"
    by (simp add: loadTimeSlots_Inl)
next
  assume "fetchAvailableTimeSlots e c (format_yyyy_MM_dd (localZone e) d) = Inr slots"
  then show "run (loadTimeSlots e c d) s = s\<lparr>loading := False, error := [], timeSlots := slots\<rparr>"
    by (simp add: loadTimeSlots_Inr)
next
  show "load_failed_message \<noteq> []"
    by (simp add: load_failed_message_def)
qed

theorem loadTimeSlots_replaces_or_clears_witness:
  "timeSlots demo_state = demo_slots
   \<and> timeSlots (run (loadTimeSlots load_down_env ''sauna-a'' 1749546000000) demo_state) = []
   \<and> error (run (loadTimeSlots load_down_env ''sauna-a'' 1749546000000) demo_state)
       = load_failed_message
   \<and> timeSlots (run (loadTimeSlots load_ok_env ''sauna-a'' 1749546000000) demo_state)
       = fresh_slots"
proof -
  have down: "fetchAvailableTimeSlots load_down_env ''sauna-a''
        (format_yyyy_MM_dd (localZone load_down_env) 1749546000000) = Inl (ErrorObj ''offline'')"
    by (simp add: load_down_env_def demo_env_def)
  have ok: "fetchAvailableTimeSlots load_ok_env ''sauna-a''
        (format_yyyy_MM_dd (localZone load_ok_env) 1749546000000) = Inr fresh_slots"
    by (simp add: load_ok_env_def demo_env_def)
  from loadTimeSlots_replaces_or_clears
         [of load_down_env "''sauna-a''" 1749546000000 "ErrorObj ''offline''" demo_state]
       loadTimeSlots_replaces_or_clears
         [of load_ok_env "''sauna-a''" 1749546000000 _ demo_state fresh_slots]
       down ok
  show ?thesis by (simp add: demo_state_def)
qed

section \<open>The webhook timestamp\<close>

text \<open>
  C5. The timestamp is meant to be the selected date and time of day on the wall clock
  of Vilnius, followed by \<^verbatim>\<open>+02:00\<close>, and the \<^verbatim>\<open>timeZone\<close> field of the body
  is always \<^verbatim>\<open>Europe/Vilnius\<close>. But \<^verbatim>\<open>setHours\<close> and \<^verbatim>\<open>setMinutes\<close> set
  the time of day on the browser's wall clock, and \<^verbatim>\<open>toLocaleString\<close> then reads
  the wall clock of Vilnius. For the selected date 2025-06-10 and the time 14:30, a
  browser on UTC gets \<^verbatim>\<open>2025-06-10T17:30:00+02:00\<close>; a browser three hours east of
  Greenwich, as Vilnius is in June, gets \<^verbatim>\<open>2025-06-10T14:30:00+02:00\<close>.
\<close>

theorem formatDateTimeForWebhook_follows_browser_zone:
  "format_yyyy_MM_dd (fixed_zone 0) 1749546000000 = ''2025-06-10''
   \<and> formatDateTimeForWebhook (fixed_zone 0) 1749546000000 ''14:30''
       = ''2025-06-10T17:30:00+02:00''
   \<and> format_yyyy_MM_dd (fixed_zone 180) 1749546000000 = ''2025-06-10''
   \<and> formatDateTimeForWebhook (fixed_zone 180) 1749546000000 ''14:30''
       = ''2025-06-10T14:30:00+02:00''
   \<and> timeZone (body (webhook_request_of e s)) = ''Europe/Vilnius''"
proof -
  have utc_day: "format_yyyy_MM_dd (fixed_zone 0) 1749546000000 = ''2025-06-10''"
    by code_simp
  have utc_stamp: "formatDateTimeForWebhook (fixed_zone 0) 1749546000000 ''14:30''
       = ''2025-06-10T17:30:00+02:00''"
    by code_simp
  have east_day: "format_yyyy_MM_dd (fixed_zone 180) 1749546000000 = ''2025-06-10''"
    by code_simp
  have east_stamp: "formatDateTimeForWebhook (fixed_zone 180) 1749546000000 ''14:30''
       = ''2025-06-10T14:30:00+02:00''"
    by code_simp
  have zone: "timeZone (body (webhook_request_of e s)) = ''Europe/Vilnius''"
    by (simp add: webhook_request_of_def)
  from utc_day utc_stamp east_day east_stamp zone show ?thesis
    by (intro conjI)
qed

section \<open>The submit button\<close>

text \<open>
  C6. The submit button is disabled if and only if the loading flag is set or the
  selected cabin, the selected time, the full name or the email is empty.
\<close>

theorem submit_disabled_iff:
  "submit_disabled s \<longleftrightarrow>
     loading s \<or> selectedCabin s = [] \<or> selectedTime s = [] \<or> fullName s = [] \<or> email s = []"
  unfolding submit_disabled_def truthy_iff by simp

theorem submit_disabled_iff_witness:
  "\<not> submit_disabled demo_state
   \<and> submit_disabled (demo_state\<lparr>loading := True\<rparr>)
   \<and> submit_disabled (demo_state\<lparr>selectedCabin := []\<rparr>)
   \<and> submit_disabled (demo_state\<lparr>selectedTime := []\<rparr>)
   \<and> submit_disabled (demo_state\<lparr>fullName := []\<rparr>)
   \<and> submit_disabled (demo_state\<lparr>email := []\<rparr>)"
  by (simp add: submit_disabled_iff demo_state_def)

section \<open>Selecting a cabin\<close>

text \<open>
  C7. After \<^verbatim>\<open>handleCabinSelect\<close> the selected time is empty: it stays unset when
  no time was selected, and a time selected before is cleared. The selected cabin is the
  one given, and the reload that the effect then starts does not select a time.
\<close>

theorem handleCabinSelect_clears_time:
  "selectedTime (run (handleCabinSelect c) s) = []
   \<and> (selectedTime s = [] \<longrightarrow> selectedTime (run (handleCabinSelect c) s) = selectedTime s)
   \<and> selectedCabin (run (handleCabinSelect c) s) = c
   \<and> selectedTime (run (selection_effect e (run (handleCabinSelect c) s))
                       (run (handleCabinSelect c) s)) = []"
proof -
  have "selectedTime (run (handleCabinSelect c) s) = []"
    by (simp add: handleCabinSelect_def)
  moreover have "selectedCabin (run (handleCabinSelect c) s) = c"
    by (simp add: handleCabinSelect_def)
  ultimately show ?thesis
    by (simp add: selection_effect_selectedTime)
qed

theorem handleCabinSelect_clears_time_witness:
  "selectedTime demo_state = ''14:30''
   \<and> selectedTime (run (handleCabinSelect ''sauna-b'') demo_state) = []
   \<and> selectedTime (initial_state 1749546000000) = []
   \<and> selectedTime (run (handleCabinSelect ''sauna-b'') (initial_state 1749546000000)) = []"
  using handleCabinSelect_clears_time [of "''sauna-b''" demo_state happy_env]
        handleCabinSelect_clears_time [of "''sauna-b''" "initial_state 1749546000000" happy_env]
  by (simp add: demo_state_def initial_state_def)

section \<open>The order of the two calls\<close>

text \<open>
  C8. In a submission that passes validation the calls that leave the browser are: the
  webhook call alone when it rejects, so that nothing is persisted; the webhook call and
  then \<^verbatim>\<open>createBooking\<close> when the webhook call resolves, whatever the HTTP status
  of its response. When \<^verbatim>\<open>createBooking\<close> then rejects, these two calls are still
  all that is made: nothing is sent to undo the webhook notification, and the handler
  ends with the error shown and the loading flag cleared.
\<close>

theorem handleBooking_webhook_before_persistence:
  assumes valid: "selectedCabin s \<noteq> []" "selectedTime s \<noteq> []" "fullName s \<noteq> []" "email s \<noteq> []"
  shows "(fetch e (webhook_request_of e s) = Inl err \<longrightarrow>
            network_calls (handleBooking e s) = [CallFetch (webhook_request_of e s)])
       \<and> (fetch e (webhook_request_of e s) = Inr response \<longrightarrow>
            network_calls (handleBooking e s)
              = [CallFetch (webhook_request_of e s), CallCreateBooking (booking_of e s)])
       \<and> (fetch e (webhook_request_of e s) = Inr response
            \<and> createBooking e (booking_of e s) = Inl err \<longrightarrow>
            network_calls (handleBooking e s)
              = [CallFetch (webhook_request_of e s), CallCreateBooking (booking_of e s)]
            \<and> run (handleBooking e s) s = s\<lparr>loading := False, error := catch_message err\<rparr>)"
proof (intro conjI impI)
  assume "fetch e (webhook_request_of e s) = Inl err"
  then show "network_calls (handleBooking e s) = [CallFetch (webhook_request_of e s)]"
    by (simp add: handleBooking_valid [OF valid] network_calls_def)
next
  assume ok: "fetch e (webhook_request_of e s) = Inr response"
  show "network_calls (handleBooking e s)
          = [CallFetch (webhook_request_of e s), CallCreateBooking (booking_of e s)]"
  proof (cases "createBooking e (booking_of e s)")
    case (Inl x)
    with ok show ?thesis
      by (simp add: handleBooking_valid [OF valid] network_calls_def)
  next
    case (Inr u)
    with ok show ?thesis
      by (simp add: handleBooking_valid [OF valid] network_calls_def reset_form_def)
  qed
next
  assume "fetch e (webhook_request_of e s) = Inr response
            \<and> createBooking e (booking_of e s) = Inl err"
  then show "network_calls (handleBooking e s)
          = [CallFetch (webhook_request_of e s), CallCreateBooking (booking_of e s)]"
    by (simp add: handleBooking_valid [OF valid] network_calls_def)
next
  assume "fetch e (webhook_request_of e s) = Inr response
            \<and> createBooking e (booking_of e s) = Inl err"
  then show "run (handleBooking e s) s = s\<lparr>loading := False, error := catch_message err\<rparr>"
    by (simp add: handleBooking_valid [OF valid])
qed

theorem handleBooking_webhook_before_persistence_witness:
  "network_calls (handleBooking webhook_down_env demo_state)
     = [CallFetch (webhook_request_of webhook_down_env demo_state)]
   \<and> network_calls (handleBooking persistence_down_env demo_state)
     = [CallFetch (webhook_request_of persistence_down_env demo_state),
        CallCreateBooking (booking_of persistence_down_env demo_state)]
   \<and> run (handleBooking persistence_down_env demo_state) demo_state
     = demo_state\<lparr>loading := False, error := ''permission denied''\<rparr>"
proof -
  have w: "fetch webhook_down_env (webhook_request_of webhook_down_env demo_state) = Inl NonError"
    by (simp add: webhook_down_env_def demo_env_def)
  have f: "fetch persistence_down_env (webhook_request_of persistence_down_env demo_state)
             = Inr \<lparr> status_code = 500 \<rparr>"
    by (simp add: persistence_down_env_def demo_env_def)
  have p: "createBooking persistence_down_env (booking_of persistence_down_env demo_state)
             = Inl (ErrorObj ''permission denied'')"
    by (simp add: persistence_down_env_def demo_env_def)
  from handleBooking_webhook_before_persistence
         [OF demo_state_valid, of webhook_down_env NonError] w
  have first: "network_calls (handleBooking webhook_down_env demo_state)
     = [CallFetch (webhook_request_of webhook_down_env demo_state)]"
    by simp
  from handleBooking_webhook_before_persistence
         [OF demo_state_valid, of persistence_down_env _ "\<lparr> status_code = 500 \<rparr>"] f p
  have second: "network_calls (handleBooking persistence_down_env demo_state)
     = [CallFetch (webhook_request_of persistence_down_env demo_state),
        CallCreateBooking (booking_of persistence_down_env demo_state)]
     \<and> run (handleBooking persistence_down_env demo_state) demo_state
     = demo_state\<lparr>loading := False, error := ''permission denied''\<rparr>"
    by simp
  from first second show ?thesis by simp
qed

section \<open>The loading flag\<close>

text \<open>
  C10. The last thing \<^verbatim>\<open>loadTimeSlots\<close> does is \<^verbatim>\<open>setLoading(false)\<close>, and
  so does \<^verbatim>\<open>handleBooking\<close> when validation has passed: the loading flag is false
  once either has run to its end, whether its calls resolved or rejected.
\<close>

theorem loading_cleared_when_settled:
  "loading (run (loadTimeSlots e c d) s) = False
   \<and> last (loadTimeSlots e c d) = SetLoading False
   \<and> (selectedCabin s \<noteq> [] \<and> selectedTime s \<noteq> [] \<and> fullName s \<noteq> [] \<and> email s \<noteq> [] \<longrightarrow>
        loading (run (handleBooking e s) s) = False
        \<and> last (handleBooking e s) = SetLoading False)"
proof (intro conjI impI)
  show "loading (run (loadTimeSlots e c d) s) = False"
    by (simp add: loadTimeSlots_def run_append)
  show "last (loadTimeSlots e c d) = SetLoading False"
    by (simp add: loadTimeSlots_def)
next
  assume v: "selectedCabin s \<noteq> [] \<and> selectedTime s \<noteq> [] \<and> fullName s \<noteq> [] \<and> email s \<noteq> []"
  then have tr: "handleBooking e s =
     ([PreventDefault, SetLoading True, SetError [], CallFetch (webhook_request_of e s)]
     @ (case fetch e (webhook_request_of e s) of
          Inl err \<Rightarrow> [SetError (catch_message err)]
        | Inr response \<Rightarrow>
            CallCreateBooking (booking_of e s)
            # (case createBooking e (booking_of e s) of
                 Inl err \<Rightarrow> [SetError (catch_message err)]
               | Inr confirmation \<Rightarrow> reset_form)))
     @ [SetLoading False]"
    by (simp add: handleBooking_valid)
  show "loading (run (handleBooking e s) s) = False"
    unfolding tr run_append by simp
  show "last (handleBooking e s) = SetLoading False"
    unfolding tr by simp
qed

theorem loading_cleared_when_settled_witness:
  "loading (run (loadTimeSlots load_down_env ''sauna-a'' 1749546000000)
              (demo_state\<lparr>loading := True\<rparr>)) = False
   \<and> loading (run (handleBooking happy_env demo_state) demo_state) = False
   \<and> loading (run (handleBooking persistence_down_env demo_state) demo_state) = False
   \<and> loading (run (handleBooking webhook_down_env demo_state) demo_state) = False"
  using loading_cleared_when_settled
          [of load_down_env "''sauna-a''" 1749546000000 "demo_state\<lparr>loading := True\<rparr>"]
        loading_cleared_when_settled [of happy_env _ _ demo_state]
        loading_cleared_when_settled [of persistence_down_env _ _ demo_state]
        loading_cleared_when_settled [of webhook_down_env _ _ demo_state]
  by (simp add: demo_state_valid)

end
